theory Spec2Isabelle
  imports Complex_Main
begin

section \<open>Narrative Flow AI: the feedback rules and the request handlers of main.py\<close>

text \<open>
  Polarity scores are Python floats.  The specification's data model calls them real
  numbers in the interval from -1 to 1, and they are modelled as \<^typ>\<open>real\<close>: the
  rounding of the float subtraction and of the literals 0.2 and 0.1 is not modelled.
  Every operation of the source that can raise is a function into \<open>py_error + 'a\<close>.
\<close>

subsection \<open>Python built-ins used by the source\<close>

datatype py_error = ValueError | IndexError | ZeroDivisionError | TypeError

text \<open>
  \<^verbatim>\<open>max(xs)\<close> raises ValueError on an empty list; otherwise it starts from the first
  item and replaces the running maximum by each later item that is greater.
  \<^verbatim>\<open>min(xs)\<close> is the same with "less".
\<close>

fun py_max :: "real list \<Rightarrow> py_error + real" where
  "py_max [] = Inl ValueError"
| "py_max (x # xs) = Inr (fold (\<lambda>item m. if item > m then item else m) xs x)"

fun py_min :: "real list \<Rightarrow> py_error + real" where
  "py_min [] = Inl ValueError"
| "py_min (x # xs) = Inr (fold (\<lambda>item m. if item < m then item else m) xs x)"

text \<open>\<^verbatim>\<open>xs[-1]\<close>: the last item, IndexError on an empty list.\<close>

definition py_last :: "'a list \<Rightarrow> py_error + 'a" where
  "py_last xs = (if xs = [] then Inl IndexError else Inr (last xs))"



subsection \<open>The feedback rules (\<^verbatim>\<open>get_structural_feedback\<close>, lines 44 to 61)\<close>

definition flat_arc_msg :: string where
  "flat_arc_msg =
     ''The emotional arc is a bit flat. Try adding more variation in tone to make it more engaging.''"

definition low_ending_msg :: string where
  "low_ending_msg =
     ''The sentiment at the end is low. A stronger, more positive conclusion could make a better impression.''"

definition fallback_msg :: string where
  "fallback_msg = ''Great job! The narrative flow seems well-structured.''"

text \<open>
  The function has one parameter, the polarity list.  The local list \<open>feedback\<close> starts
  empty and is passed from one statement to the next.  The second test is Python's
  short-circuit \<^verbatim>\<open>and\<close>: the last item is read only when the list is not empty.
\<close>

definition get_structural_feedback :: "real list \<Rightarrow> py_error + string list" where
  "get_structural_feedback polarities =
     (let feedback = [] in
      case (if length polarities > 2 then
              (case py_max polarities of
                 Inl e \<Rightarrow> Inl e
               | Inr max_pol \<Rightarrow>
                   (case py_min polarities of
                      Inl e \<Rightarrow> Inl e
                    | Inr min_pol \<Rightarrow>
                        Inr (if max_pol - min_pol < 0.2
                             then feedback @ [flat_arc_msg] else feedback)))
            else Inr feedback) of
        Inl e \<Rightarrow> Inl e
      | Inr feedback \<Rightarrow>
          (case (if length polarities > 0 then
                   (case py_last polarities of
                      Inl e \<Rightarrow> Inl e
                    | Inr v \<Rightarrow>
                        Inr (if v < 0.1 then feedback @ [low_ending_msg] else feedback))
                 else Inr feedback) of
             Inl e \<Rightarrow> Inl e
           | Inr feedback \<Rightarrow>
               Inr (if feedback = [] then feedback @ [fallback_msg] else feedback)))"

subsection \<open>The rules as the specification words them (section 4.3)\<close>

text \<open>
  Rule 1: the sequence has more than 2 entries and \<open>max - min < 0.2\<close>.
  Rule 2: the sequence is non-empty and its last entry is \<open>< 0.1\<close>.
  Rule 3: the fallback, when rules 1 and 2 appended nothing.
  The three thresholds are the literals 2, 0.2 and 0.1.
\<close>

definition rule1_applies :: "real list \<Rightarrow> bool" where
  "rule1_applies s \<longleftrightarrow> length s > 2 \<and> Max (set s) - Min (set s) < 0.2"

definition rule2_applies :: "real list \<Rightarrow> bool" where
  "rule2_applies s \<longleftrightarrow> s \<noteq> [] \<and> last s < 0.1"

definition feedback_rules_spec :: "real list \<Rightarrow> string list" where
  "feedback_rules_spec s =
     (let appended = (if rule1_applies s then [flat_arc_msg] else []) @
                     (if rule2_applies s then [low_ending_msg] else [])
      in if appended = [] then [fallback_msg] else appended)"

subsection \<open>The feedback rules over a store of list objects\<close>

text \<open>
  Python lists are mutable objects reached through references, so whether the function
  changes its argument is a question about the store.  A store is the list of allocated
  objects and a reference is an index into it; \<^verbatim>\<open>feedback = []\<close> allocates a new
  object, \<^verbatim>\<open>feedback.append(m)\<close> updates the object \<open>feedback\<close> refers to, and
  \<^verbatim>\<open>len\<close>, \<^verbatim>\<open>max\<close>, \<^verbatim>\<open>min\<close> and indexing read the object
  \<open>polarities\<close> refers to in the store of that moment.
\<close>

datatype py_object = FloatList "real list" | StrList "string list"

type_synonym store = "py_object list"

definition and_then :: "py_error + 'a \<Rightarrow> ('a \<Rightarrow> py_error + 'b) \<Rightarrow> py_error + 'b" where
  "and_then r f = (case r of Inl e \<Rightarrow> Inl e | Inr v \<Rightarrow> f v)"

definition load :: "store \<Rightarrow> nat \<Rightarrow> py_object option" where
  "load h a = (if a < length h then Some (h ! a) else None)"

definition new_list :: "store \<Rightarrow> nat \<times> store" where
  "new_list h = (length h, h @ [StrList []])"

definition float_items :: "store \<Rightarrow> nat \<Rightarrow> py_error + real list" where
  "float_items h a = (case load h a of Some (FloatList xs) \<Rightarrow> Inr xs | _ \<Rightarrow> Inl TypeError)"

definition str_items :: "store \<Rightarrow> nat \<Rightarrow> py_error + string list" where
  "str_items h a = (case load h a of Some (StrList xs) \<Rightarrow> Inr xs | _ \<Rightarrow> Inl TypeError)"

definition list_append :: "store \<Rightarrow> nat \<Rightarrow> string \<Rightarrow> py_error + store" where
  "list_append h a msg =
     (case load h a of
        Some (StrList xs) \<Rightarrow> Inr (h[a := StrList (xs @ [msg])])
      | _ \<Rightarrow> Inl TypeError)"

definition get_structural_feedback_store :: "store \<Rightarrow> nat \<Rightarrow> py_error + nat \<times> store" where
  "get_structural_feedback_store h0 polarities =
     (let (feedback, h1) = new_list h0 in
      and_then
        (and_then (float_items h1 polarities) (\<lambda>ps.
           if length ps > 2 then
             and_then (py_max ps) (\<lambda>max_pol.
             and_then (py_min ps) (\<lambda>min_pol.
               if max_pol - min_pol < 0.2
               then list_append h1 feedback flat_arc_msg else Inr h1))
           else Inr h1))
        (\<lambda>h2.
      and_then
        (and_then (float_items h2 polarities) (\<lambda>ps.
           if length ps > 0 then
             and_then (py_last ps) (\<lambda>v.
               if v < 0.1 then list_append h2 feedback low_ending_msg else Inr h2)
           else Inr h2))
        (\<lambda>h3.
      and_then (str_items h3 feedback) (\<lambda>fb.
      and_then (if fb = [] then list_append h3 feedback fallback_msg else Inr h3) (\<lambda>h4.
        Inr (feedback, h4))))))"

subsection \<open>Paths\<close>





subsection \<open>The request handlers\<close>









record summary =
  num_sentences :: nat
  average_polarity :: real

record analysis =
  analysis_summary :: summary
  feedback :: "string list"
  emotional_arc_plot_url :: string


section \<open>Properties\<close>

subsection \<open>The built-ins\<close>

text \<open>
  On a non-empty list the two folds compute the greatest and the least element, and the
  left-to-right sum is the sum of the list.
\<close>

lemma py_max_Max: "xs \<noteq> [] \<Longrightarrow> py_max xs = Inr (Max (set xs))"
proof (cases xs)
  case Nil
  assume "xs \<noteq> []"
  with Nil show ?thesis by simp
next
  case (Cons x ys)
  have "(\<lambda>item m. if item > m then item else m) = (max :: real \<Rightarrow> real \<Rightarrow> real)"
    by (auto simp: fun_eq_iff max_def)
  moreover have "fold max ys x = Max (set (x # ys))"
    by (simp only: Max.set_eq_fold)
  ultimately show ?thesis
    using Cons by simp
qed

lemma py_min_Min: "xs \<noteq> [] \<Longrightarrow> py_min xs = Inr (Min (set xs))"
proof (cases xs)
  case Nil
  assume "xs \<noteq> []"
  with Nil show ?thesis by simp
next
  case (Cons x ys)
  have "(\<lambda>item m. if item < m then item else m) = (min :: real \<Rightarrow> real \<Rightarrow> real)"
    by (auto simp: fun_eq_iff min_def)
  moreover have "fold min ys x = Min (set (x # ys))"
    by (simp only: Min.set_eq_fold)
  ultimately show ?thesis
    using Cons by simp
qed


subsection \<open>The source function computes the rules of the specification\<close>

lemma msgs_distinct:
  "flat_arc_msg \<noteq> low_ending_msg" "flat_arc_msg \<noteq> fallback_msg"
  "low_ending_msg \<noteq> fallback_msg" "low_ending_msg \<noteq> flat_arc_msg"
  "fallback_msg \<noteq> flat_arc_msg" "fallback_msg \<noteq> low_ending_msg"
  by (simp_all add: flat_arc_msg_def low_ending_msg_def fallback_msg_def)

lemma get_structural_feedback_spec:
  "get_structural_feedback ps = Inr (feedback_rules_spec ps)"
proof (cases "ps = []")
  case True
  then show ?thesis
    by (simp add: get_structural_feedback_def feedback_rules_spec_def rule1_applies_def
        rule2_applies_def)
next
  case False
  then show ?thesis
    by (simp add: get_structural_feedback_def feedback_rules_spec_def rule1_applies_def
        rule2_applies_def py_max_Max py_min_Min py_last_def)
qed

lemma feedback_rules_spec_cases:
  "feedback_rules_spec ps =
     (if rule1_applies ps then
        (if rule2_applies ps then [flat_arc_msg, low_ending_msg] else [flat_arc_msg])
      else (if rule2_applies ps then [low_ending_msg] else [fallback_msg]))"
  by (simp add: feedback_rules_spec_def)

subsection \<open>The store\<close>

lemma load_old: "a < length h \<Longrightarrow> load (h @ [x]) a = Some (h ! a)"
  by (simp add: load_def nth_append)

lemma load_new: "load (h @ [x]) (length h) = Some x"
  by (simp add: load_def)

lemma float_items_old:
  "load h p = Some (FloatList ps) \<Longrightarrow> float_items (h @ [x]) p = Inr ps"
  by (auto simp: float_items_def load_def nth_append split: if_splits)

lemma str_items_new: "str_items (h @ [StrList xs]) (length h) = Inr xs"
  by (simp add: str_items_def load_new)

lemma list_append_new:
  "list_append (h @ [StrList xs]) (length h) msg = Inr (h @ [StrList (xs @ [msg])])"
  by (simp add: list_append_def load_new)

lemma get_structural_feedback_store_result:
  assumes "load h p = Some (FloatList ps)"
  shows "get_structural_feedback_store h p = Inr (length h, h @ [StrList (feedback_rules_spec ps)])"
proof (cases "ps = []")
  case True
  then show ?thesis
    using assms
    by (simp add: get_structural_feedback_store_def new_list_def and_then_def
        float_items_old str_items_new list_append_new feedback_rules_spec_def
        rule1_applies_def rule2_applies_def)
next
  case False
  then show ?thesis
    using assms
    by (simp add: get_structural_feedback_store_def new_list_def and_then_def
        float_items_old str_items_new list_append_new feedback_rules_spec_def
        rule1_applies_def rule2_applies_def py_max_Max py_min_Min py_last_def)
qed

subsection \<open>The analysis handler\<close>


text \<open>
  The plot filename determines the identifier it was built from: two requests write the
  same path only when they drew the same identifier.
\<close>

lemma plot_filename_inj:
  "''plot_'' @ u1 @ ''.png'' = ''plot_'' @ u2 @ ''.png'' \<longleftrightarrow> u1 = u2"
  by simp

section \<open>The claims\<close>



text \<open>
  C2.  For every polarity sequence, the empty one included, the function returns a
  feedback list and that list is not empty; when neither rule 1 nor rule 2 applies, the
  list is the fallback message alone.
\<close>

theorem feedback_never_empty:
  "\<exists>fb. get_structural_feedback ps = Inr fb \<and> fb \<noteq> [] \<and>
        (\<not> rule1_applies ps \<and> \<not> rule2_applies ps \<longrightarrow> fb = [fallback_msg])"
  by (simp add: get_structural_feedback_spec feedback_rules_spec_cases)

theorem feedback_never_empty_witness:
  "\<not> rule1_applies [] \<and> \<not> rule2_applies [] \<and>
   get_structural_feedback [] = Inr [fallback_msg]"
  using feedback_never_empty [of "[]"]
  by (auto simp: rule1_applies_def rule2_applies_def)


text \<open>
  C4.  For every polarity sequence, the low-ending message is in the feedback exactly
  when the sequence is non-empty and its last entry is below 0.1; for 0.05, 0.06 the
  feedback is exactly the low-ending message, and rule 1 does not apply there.
\<close>

theorem low_ending_rule:
  "(\<exists>fb. get_structural_feedback ps = Inr fb \<and>
         (low_ending_msg \<in> set fb \<longleftrightarrow> ps \<noteq> [] \<and> last ps < 0.1)) \<and>
   get_structural_feedback [0.05, 0.06] = Inr [low_ending_msg] \<and>
   \<not> rule1_applies [0.05, 0.06]"
proof (intro conjI)
  show "\<exists>fb. get_structural_feedback ps = Inr fb \<and>
         (low_ending_msg \<in> set fb \<longleftrightarrow> ps \<noteq> [] \<and> last ps < 0.1)"
    by (simp add: get_structural_feedback_spec feedback_rules_spec_cases msgs_distinct
        rule2_applies_def)
  show "get_structural_feedback [0.05, 0.06] = Inr [low_ending_msg]"
    by (simp add: get_structural_feedback_def py_last_def)
  show "\<not> rule1_applies [0.05, 0.06]"
    by (simp add: rule1_applies_def)
qed





text \<open>
  C7.  Run on a store in which \<open>p\<close> refers to the polarity sequence \<open>ps\<close>, the function
  returns a reference to one newly allocated list and leaves every object that was
  there unchanged: \<open>p\<close> still refers to \<open>ps\<close>, the same elements in the same order.  The
  new list is the feedback of the rules with the literal thresholds 2, 0.2 and 0.1; the
  sequence is the function's only input.
\<close>

theorem feedback_rules_frame:
  assumes "load h p = Some (FloatList ps)"
  shows "\<exists>fb h'.
     get_structural_feedback_store h p = Inr (length h, h') \<and>
     load h' p = Some (FloatList ps) \<and>
     h' = h @ [StrList fb] \<and>
     get_structural_feedback ps = Inr fb \<and>
     fb = feedback_rules_spec ps"
proof -
  from assms have "p < length h" and "h ! p = FloatList ps"
    by (auto simp: load_def split: if_splits)
  then have "load (h @ [StrList (feedback_rules_spec ps)]) p = Some (FloatList ps)"
    by (simp add: load_old)
  then show ?thesis
    by (simp add: get_structural_feedback_store_result [OF assms] load_new
        get_structural_feedback_spec)
qed

theorem feedback_rules_frame_witness:
  "load [FloatList [0.05, 0.06]] 0 = Some (FloatList [0.05, 0.06]) \<and>
   get_structural_feedback_store [FloatList [0.05, 0.06]] 0 =
     Inr (1, [FloatList [0.05, 0.06], StrList [low_ending_msg]])"
proof -
  have h: "load [FloatList [0.05, 0.06]] 0 = Some (FloatList [0.05, 0.06])"
    by (simp add: load_def)
  have "feedback_rules_spec [0.05, 0.06] = [low_ending_msg]"
    by (simp add: feedback_rules_spec_cases rule1_applies_def rule2_applies_def)
  with feedback_rules_frame [OF h] h show ?thesis
    by auto
qed




end
